theory Spec2Isabelle
  imports Main
begin

section \<open>Form persistence: the data model\<close>

text \<open>
  The development embeds \<^verbatim>\<open>src/form-persistence.ts\<close>. The source works on the browser's
  form elements; here an element is the bag of properties the source reads and writes,
  and a form is its identifier and the list of its elements. What the language does is
  modelled: the order in which the keys of an object are enumerated, the properties every
  object inherits, reading an array past its end, the errors raised. Of what the browser
  does behind a property, the model has what a write of the source changes elsewhere:
  the conversion of the value assigned (to a string, to a boolean), a radio that becomes
  checked unchecking the other radios of its group, a select's \<^verbatim>\<open>value\<close> and the
  selectedness of its options following each other. It has not an input sanitising or
  refusing a value, an element shadowing a property of its form, or the quota of a
  store. The functions a caller supplies (filters, handlers) are total functions of what
  they are given.
\<close>

subsection \<open>Values of a record\<close>

text \<open>
  \<^verbatim>\<open>interface FormData { [key: string]: any[] }\<close>. The values the serializer stores are
  strings and booleans; \<open>JUndefined\<close> is what reading an array past its end gives.
\<close>

datatype jsval = JStr string | JBool bool | JUndefined

text \<open>
  An object is the list of its entries in the order the keys were created. Enumeration
  (\<^verbatim>\<open>for (const k in obj)\<close>) visits the keys that are array indices first, in ascending
  numeric order, then the other keys in creation order.
\<close>

type_synonym FormData = "(string \<times> jsval list) list"

definition isDigit :: "char \<Rightarrow> bool" where
  "isDigit c = (c \<in> set ''0123456789'')"

definition digitsValue :: "string \<Rightarrow> int" where
  "digitsValue s = foldl (\<lambda>n c. 10 * n + (of_char c - 48)) 0 s"

definition isArrayIndex :: "string \<Rightarrow> bool" where
  "isArrayIndex s =
     (s \<noteq> [] \<and> list_all isDigit s \<and> (s = ''0'' \<or> hd s \<noteq> CHR ''0'')
      \<and> digitsValue s < 4294967295)"

definition ownKeys :: "(string \<times> 'a) list \<Rightarrow> string list" where
  "ownKeys obj =
     (let ks = map fst obj
      in sort_key digitsValue (filter isArrayIndex ks) @ filter (\<lambda>k. \<not> isArrayIndex k) ks)"

text \<open>
  \<^verbatim>\<open>key in obj\<close> is true for the keys the object owns and for the names every object
  inherits from \<^verbatim>\<open>Object.prototype\<close>. Under an inherited name that it does not own, an object
  gives a function (the prototype itself under \<^verbatim>\<open>__proto__\<close>): not an array, and nothing
  that can be iterated.
\<close>

definition inheritedKeys :: "string list" where
  "inheritedKeys =
     [''constructor'', ''hasOwnProperty'', ''isPrototypeOf'', ''propertyIsEnumerable'',
      ''toLocaleString'', ''toString'', ''valueOf'', ''__proto__'', ''__defineGetter__'',
      ''__defineSetter__'', ''__lookupGetter__'', ''__lookupSetter__'']"

definition hasProperty :: "(string \<times> 'a) list \<Rightarrow> string \<Rightarrow> bool" where
  "hasProperty obj key = (key \<in> fst ` set obj \<or> key \<in> set inheritedKeys)"

text \<open>
  The errors raised: the \<^verbatim>\<open>Error\<close> the source throws, with its message; the \<^verbatim>\<open>TypeError\<close> of
  calling what is no function or iterating what cannot be; the \<^verbatim>\<open>SyntaxError\<close> of
  \<^verbatim>\<open>JSON.parse\<close>. A loop stops at the first error.
\<close>

datatype error = Error string | TypeError | SyntaxError

fun foldE :: "('s \<Rightarrow> 'a \<Rightarrow> error + 's) \<Rightarrow> 's \<Rightarrow> 'a list \<Rightarrow> error + 's" where
  "foldE g s [] = Inr s"
| "foldE g s (x # xs) = (case g s x of Inl e \<Rightarrow> Inl e | Inr s' \<Rightarrow> foldE g s' xs)"

text \<open>\<^verbatim>\<open>values[index]\<close>: \<^verbatim>\<open>undefined\<close> past the end of the array.\<close>

definition at :: "jsval list \<Rightarrow> nat \<Rightarrow> jsval" where
  "at vs i = (if i < length vs then vs ! i else JUndefined)"

text \<open>
  The conversions of the element interface: assigning to \<^verbatim>\<open>value\<close> converts to a string,
  assigning to \<^verbatim>\<open>checked\<close> or \<^verbatim>\<open>selected\<close> converts to a boolean.
\<close>

fun ToString :: "jsval \<Rightarrow> string" where
  "ToString (JStr s) = s"
| "ToString (JBool b) = (if b then ''true'' else ''false'')"
| "ToString JUndefined = ''undefined''"

fun ToBoolean :: "jsval \<Rightarrow> bool" where
  "ToBoolean (JStr s) = (s \<noteq> [])"
| "ToBoolean (JBool b) = b"
| "ToBoolean JUndefined = False"

subsection \<open>Elements and forms\<close>

record html_option =
  optionValue :: string
  selected :: bool

record element =
  tagName :: string
  type :: string
  name :: string
  "value" :: string
  checked :: bool
  multiple :: bool
  options :: "html_option list"

record form =
  form_id :: string
  elements :: "element list"

text \<open>
  \<^verbatim>\<open>interface FormPersistenceOptions\<close>. Every field is optional in the source, and every
  read of a field treats a missing one as the default the source spreads into its
  \<^verbatim>\<open>config\<close> (\<^verbatim>\<open>false\<close>, \<^verbatim>\<open>[]\<close>, \<^verbatim>\<open>null\<close>): a missing boolean is \<open>False\<close>, a missing list
  is \<open>[]\<close>, a missing or \<^verbatim>\<open>null\<close> string, predicate or table is \<open>None\<close>. A handler may do
  anything to the form it is given; it is a function from the form to the form.
\<close>

type_synonym handler = "form \<Rightarrow> jsval \<Rightarrow> form"

record FormPersistenceOptions =
  uuid :: "string option"
  useSessionStorage :: bool
  saveOnSubmit :: bool
  valueFunctions :: "(string \<times> handler) list option"
  "include" :: "string list"
  exclude :: "string list"
  includeFilter :: "(element \<Rightarrow> bool) option"
  excludeFilter :: "(element \<Rightarrow> bool) option"

section \<open>Field filter\<close>

definition isNameFiltered :: "string \<Rightarrow> string list \<Rightarrow> string list \<Rightarrow> bool" where
  "isNameFiltered n inc exc =
     (if n = [] then True
      else if n \<in> set exc then True
      else if length inc > 0 \<and> n \<notin> set inc then True
      else False)"

definition isElementFiltered ::
  "element \<Rightarrow> (element \<Rightarrow> bool) option \<Rightarrow> (element \<Rightarrow> bool) option \<Rightarrow> bool" where
  "isElementFiltered el incFilter excFilter =
     (if (case excFilter of None \<Rightarrow> False | Some p \<Rightarrow> p el) then True
      else if (case incFilter of None \<Rightarrow> False | Some p \<Rightarrow> \<not> p el) then True
      else False)"

section \<open>Serializer\<close>

text \<open>
  \<^verbatim>\<open>pushToArray\<close>: nothing for the empty string; otherwise give the key an empty array
  unless \<^verbatim>\<open>key in dict\<close>, then push. When the key is an inherited name that \<open>dict\<close> does not
  own, no array is created and \<^verbatim>\<open>dict[key].push\<close> is no function.
\<close>

definition pushToArray :: "FormData \<Rightarrow> string \<Rightarrow> jsval \<Rightarrow> error + FormData" where
  "pushToArray dict key v =
     (if v = JStr [] then Inr dict
      else
        let dict' = (if \<not> hasProperty dict key then dict @ [(key, [])] else dict)
        in if key \<in> fst ` set dict'
           then Inr (map (\<lambda>(k, vs). if k = key then (k, vs @ [v]) else (k, vs)) dict')
           else Inl TypeError)"

text \<open>The body of the loop over \<^verbatim>\<open>form.elements\<close>; \<open>data\<close> is the record built so far.\<close>

definition serializeElement ::
  "FormPersistenceOptions \<Rightarrow> FormData \<Rightarrow> element \<Rightarrow> error + FormData" where
  "serializeElement config data el =
     (let tag = tagName el; ty = type el in
      if tag = ''INPUT'' \<and> (ty = ''password'' \<or> ty = ''file'') then Inr data
      else if isNameFiltered (name el) (include config) (exclude config)
              \<or> isElementFiltered el (includeFilter config) (excludeFilter config) then Inr data
      else if tag = ''INPUT'' then
        (if ty = ''radio'' then
           (if checked el then pushToArray data (name el) (JStr (value el)) else Inr data)
         else if ty = ''checkbox'' then pushToArray data (name el) (JBool (checked el))
         else pushToArray data (name el) (JStr (value el)))
      else if tag = ''TEXTAREA'' then pushToArray data (name el) (JStr (value el))
      else if tag = ''SELECT'' then
        (if multiple el then
           foldE (\<lambda>d opt. if selected opt then pushToArray d (name el) (JStr (optionValue opt))
                          else Inr d)
             data (options el)
         else pushToArray data (name el) (JStr (value el)))
      else Inr data)"

definition serialize :: "form \<Rightarrow> FormPersistenceOptions \<Rightarrow> error + FormData" where
  "serialize f opts = foldE (serializeElement opts) [] (elements f)"

section \<open>Deserializer\<close>

text \<open>
  A select's \<^verbatim>\<open>value\<close> is the value of its first selected option, the empty string when
  none is selected. Assigning to it deselects every option and then selects the first
  one that has the value assigned, if there is one.
\<close>

definition selectedValue :: "html_option list \<Rightarrow> string" where
  "selectedValue os = (case filter selected os of [] \<Rightarrow> [] | opt # _ \<Rightarrow> optionValue opt)"

fun selectFirst :: "string \<Rightarrow> html_option list \<Rightarrow> html_option list" where
  "selectFirst v [] = []"
| "selectFirst v (opt # os) =
     (if optionValue opt = v
      then opt\<lparr>selected := True\<rparr> # map (\<lambda>p. p\<lparr>selected := False\<rparr>) os
      else opt\<lparr>selected := False\<rparr> # selectFirst v os)"

text \<open>
  \<^verbatim>\<open>applyValues(element, values, index)\<close>, as it changes the element it is given. After the
  writes to the options of a select, the select's \<^verbatim>\<open>value\<close> is the one they give.
\<close>

definition applyValues :: "element \<Rightarrow> jsval list \<Rightarrow> nat \<Rightarrow> element" where
  "applyValues el vals index =
     (let tag = tagName el in
      if tag = ''INPUT'' then
        (if type el = ''radio'' then el\<lparr>checked := (JStr (value el) = at vals 0)\<rparr>
         else if type el = ''checkbox'' then el\<lparr>checked := ToBoolean (at vals index)\<rparr>
         else el\<lparr>value := ToString (at vals index)\<rparr>)
      else if tag = ''TEXTAREA'' then el\<lparr>value := ToString (at vals index)\<rparr>
      else if tag = ''SELECT'' then
        (if multiple el then
           (let os = map (\<lambda>opt. opt\<lparr>selected := (JStr (optionValue opt) \<in> set vals)\<rparr>) (options el)
            in el\<lparr>options := os, value := selectedValue os\<rparr>)
         else
           (let os = selectFirst (ToString (at vals index)) (options el)
            in el\<lparr>options := os, value := selectedValue os\<rparr>))
      else el)"

text \<open>
  The radios of a form that share a name, not empty, are a group: when one of them
  becomes checked, the others are unchecked. \<open>applyValuesAt es j vals index\<close> is the call
  \<^verbatim>\<open>applyValues(elements[j], values, index)\<close> as it changes the elements of the form.
\<close>

definition radio :: "element \<Rightarrow> bool" where
  "radio el = (tagName el = ''INPUT'' \<and> type el = ''radio'')"

definition uncheckGroup :: "nat \<Rightarrow> element list \<Rightarrow> element list" where
  "uncheckGroup j es =
     map (\<lambda>(k, e). if k \<noteq> j \<and> radio e \<and> name e = name (es ! j) \<and> name e \<noteq> []
                    then e\<lparr>checked := False\<rparr> else e)
       (enumerate 0 es)"

definition applyValuesAt :: "element list \<Rightarrow> nat \<Rightarrow> jsval list \<Rightarrow> nat \<Rightarrow> element list" where
  "applyValuesAt es j vals index =
     (let es' = es[j := applyValues (es ! j) vals index]
      in if radio (es' ! j) \<and> checked (es' ! j) then uncheckGroup j es' else es')"

text \<open>
  \<^verbatim>\<open>applySpecialHandlers(data, form, options)\<close>. The result is the form after the handlers
  ran, the calls made (field name and value passed, in order), and the names handled.
  For a name of the table that \<open>data\<close> only inherits, \<^verbatim>\<open>fnName in data\<close> is true and
  \<^verbatim>\<open>data[fnName]\<close> cannot be iterated.
\<close>

type_synonym calls = "(string \<times> jsval) list"

definition applyHandler ::
  "FormData \<Rightarrow> FormPersistenceOptions \<Rightarrow> (string \<times> handler) list
     \<Rightarrow> form \<times> calls \<times> string list \<Rightarrow> string \<Rightarrow> error + form \<times> calls \<times> string list" where
  "applyHandler data opts table st fnName =
     (case st of (f, log, speciallyHandled) \<Rightarrow>
        if hasProperty data fnName then
          if isNameFiltered fnName (include opts) (exclude opts) then Inr st
          else
            (case (map_of data fnName, map_of table fnName) of
               (Some vals, Some h) \<Rightarrow>
                 Inr (foldl h f vals, log @ map (\<lambda>v. (fnName, v)) vals,
                      speciallyHandled @ [fnName])
             | _ \<Rightarrow> Inl TypeError)
        else Inr st)"

definition applySpecialHandlers ::
  "FormData \<Rightarrow> form \<Rightarrow> FormPersistenceOptions \<Rightarrow> error + form \<times> calls \<times> string list" where
  "applySpecialHandlers data f opts =
     (case valueFunctions opts of
        None \<Rightarrow> Inr (f, [], [])
      | Some table \<Rightarrow> foldE (applyHandler data opts table) (f, [], []) (ownKeys table))"

text \<open>
  \<^verbatim>\<open>deserialize\<close> calls \<^verbatim>\<open>applySpecialHandlers(data, form, config.valueFunctions!)\<close>: the
  object it passes as \<^verbatim>\<open>options\<close> is the handler table. Read as options, its
  \<^verbatim>\<open>valueFunctions\<close> is the table's entry for the field name \<^verbatim>\<open>valueFunctions\<close>: missing,
  or a handler, that is a function, which is truthy and has no enumerable key. Its
  \<^verbatim>\<open>include\<close> and \<^verbatim>\<open>exclude\<close> are read only inside the loop over those keys.
\<close>

definition tableAsOptions :: "(string \<times> handler) list \<Rightarrow> FormPersistenceOptions" where
  "tableAsOptions table =
     \<lparr> uuid = None, useSessionStorage = False, saveOnSubmit = False,
       valueFunctions = (case map_of table ''valueFunctions'' of None \<Rightarrow> None | Some h \<Rightarrow> Some []),
       include = [], exclude = [], includeFilter = None, excludeFilter = None \<rparr>"

text \<open>
  The generic path for one field name: the elements of that name that pass the element
  filter, by position in \<^verbatim>\<open>form.elements\<close>, each given its index in that list. The names
  come from the enumeration of \<open>data\<close>, so \<^verbatim>\<open>data[name]\<close> is there.
\<close>

definition restoreField :: "FormPersistenceOptions \<Rightarrow> string \<Rightarrow> jsval list \<Rightarrow> form \<Rightarrow> form" where
  "restoreField config n vals f =
     (let els = elements f;
          inputs = filter (\<lambda>j. name (els ! j) = n
                     \<and> \<not> isElementFiltered (els ! j) (includeFilter config) (excludeFilter config))
                     [0..<length els]
      in f\<lparr>elements := foldl (\<lambda>es (i, j). applyValuesAt es j vals i) els (enumerate 0 inputs)\<rparr>)"

definition deserializeField ::
  "FormPersistenceOptions \<Rightarrow> FormData \<Rightarrow> string list \<Rightarrow> form \<Rightarrow> string \<Rightarrow> form" where
  "deserializeField config data speciallyHandled f n =
     (if isNameFiltered n (include config) (exclude config) then f
      else if n \<notin> set speciallyHandled then
        (case map_of data n of None \<Rightarrow> f | Some vals \<Rightarrow> restoreField config n vals f)
      else f)"

text \<open>The form after \<^verbatim>\<open>deserialize\<close>, and the calls of handlers made.\<close>

definition deserialize ::
  "form \<Rightarrow> FormData \<Rightarrow> FormPersistenceOptions \<Rightarrow> error + form \<times> calls" where
  "deserialize f data opts =
     (case (case valueFunctions opts of
              Some table \<Rightarrow> applySpecialHandlers data f (tableAsOptions table)
            | None \<Rightarrow> Inr (f, [], []))
      of Inl e \<Rightarrow> Inl e
       | Inr (f', log, speciallyHandled) \<Rightarrow>
           Inr (foldl (deserializeField opts data speciallyHandled) f' (ownKeys data), log))"

section \<open>Storage lifecycle\<close>

text \<open>
  \<^verbatim>\<open>JSON.stringify\<close> and \<^verbatim>\<open>JSON.parse\<close> belong to the platform and are parameters of the
  model: the text of a record, and the record a text decodes to or the error raised.
\<close>

record platform =
  JSON_stringify :: "FormData \<Rightarrow> string"
  JSON_parse :: "string \<Rightarrow> error + FormData"

definition truthy :: "string option \<Rightarrow> bool" where
  "truthy u = (case u of None \<Rightarrow> False | Some s \<Rightarrow> s \<noteq> [])"

definition getStorageKey :: "form \<Rightarrow> string option \<Rightarrow> error + string" where
  "getStorageKey f u =
     (if \<not> truthy u \<and> form_id f = [] then
        Inl (Error ''form persistence requires a form id or uuid'')
      else Inr (''form#'' @ (case u of Some s \<Rightarrow> if s \<noteq> [] then s else form_id f
                                   | None \<Rightarrow> form_id f)))"

text \<open>
  The page: its one form, the two stores, the listeners attached to the window for each
  lifecycle signal and to the form for \<^verbatim>\<open>submit\<close>, in the order they were attached. A
  listener is one of the three closures a call of \<^verbatim>\<open>persist\<close> creates, with the
  \<^verbatim>\<open>config\<close> it captured; the number of the call stands for the identity of the function
  object, which is what \<^verbatim>\<open>removeEventListener\<close> compares.
\<close>

datatype closure = SaveForm | SaveFormBeforeUnload | SubmitHandler

record listener =
  session :: nat
  closure :: closure
  config :: FormPersistenceOptions

record world =
  theForm :: form
  localStorage :: "string \<rightharpoonup> string"
  sessionStorage :: "string \<rightharpoonup> string"
  popstate :: "listener list"
  beforeunload :: "listener list"
  unload :: "listener list"
  submit :: "listener list"
  nextSession :: nat

definition getItem :: "bool \<Rightarrow> string \<Rightarrow> world \<Rightarrow> string option" where
  "getItem useSession k w = (if useSession then sessionStorage w k else localStorage w k)"

definition setItem :: "bool \<Rightarrow> string \<Rightarrow> string \<Rightarrow> world \<Rightarrow> world" where
  "setItem useSession k v w =
     (if useSession then w\<lparr>sessionStorage := (sessionStorage w)(k \<mapsto> v)\<rparr>
      else w\<lparr>localStorage := (localStorage w)(k \<mapsto> v)\<rparr>)"

definition removeItem :: "bool \<Rightarrow> string \<Rightarrow> world \<Rightarrow> world" where
  "removeItem useSession k w =
     (if useSession then w\<lparr>sessionStorage := (sessionStorage w)(k := None)\<rparr>
      else w\<lparr>localStorage := (localStorage w)(k := None)\<rparr>)"

definition sameFunction :: "nat \<Rightarrow> closure \<Rightarrow> listener \<Rightarrow> bool" where
  "sameFunction s c l = (session l = s \<and> closure l = c)"

definition addEventListener :: "listener \<Rightarrow> listener list \<Rightarrow> listener list" where
  "addEventListener l ls =
     (if list_ex (sameFunction (session l) (closure l)) ls then ls else ls @ [l])"

definition removeEventListener :: "nat \<Rightarrow> closure \<Rightarrow> listener list \<Rightarrow> listener list" where
  "removeEventListener s c ls = filter (\<lambda>l. \<not> sameFunction s c l) ls"

definition save :: "platform \<Rightarrow> FormPersistenceOptions \<Rightarrow> world \<Rightarrow> error + world" where
  "save P opts w =
     (case serialize (theForm w) opts of
        Inl e \<Rightarrow> Inl e
      | Inr data \<Rightarrow>
          (case getStorageKey (theForm w) (uuid opts) of
             Inl e \<Rightarrow> Inl e
           | Inr k \<Rightarrow> Inr (setItem (useSessionStorage opts) k (JSON_stringify P data) w)))"

definition load :: "platform \<Rightarrow> FormPersistenceOptions \<Rightarrow> world \<Rightarrow> error + world" where
  "load P opts w =
     (case getStorageKey (theForm w) (uuid opts) of
        Inl e \<Rightarrow> Inl e
      | Inr k \<Rightarrow>
          (case getItem (useSessionStorage opts) k w of
             None \<Rightarrow> Inr w
           | Some json \<Rightarrow>
               if json = [] then Inr w
               else (case JSON_parse P json of
                       Inl e \<Rightarrow> Inl e
                     | Inr data \<Rightarrow>
                         (case deserialize (theForm w) data opts of
                            Inl e \<Rightarrow> Inl e
                          | Inr (f', log) \<Rightarrow> Inr (w\<lparr>theForm := f'\<rparr>)))))"

definition clearStorage :: "FormPersistenceOptions \<Rightarrow> world \<Rightarrow> error + world" where
  "clearStorage opts w =
     (case getStorageKey (theForm w) (uuid opts) of
        Inl e \<Rightarrow> Inl e
      | Inr k \<Rightarrow> Inr (removeItem (useSessionStorage opts) k w))"

text \<open>
  Calling a listener: the page after the call, and the error if the call raised. What a
  closure did before it raised stays done.
\<close>

definition call :: "platform \<Rightarrow> listener \<Rightarrow> world \<Rightarrow> world \<times> error option" where
  "call P l w =
     (case closure l of
        SaveForm \<Rightarrow>
          (case save P (config l) w of Inl e \<Rightarrow> (w, Some e) | Inr w' \<Rightarrow> (w', None))
      | SaveFormBeforeUnload \<Rightarrow>
          (let w1 = w\<lparr>unload := removeEventListener (session l) SaveForm (unload w)\<rparr>
           in case save P (config l) w1 of Inl e \<Rightarrow> (w1, Some e) | Inr w' \<Rightarrow> (w', None))
      | SubmitHandler \<Rightarrow>
          (let w1 = w\<lparr>popstate := removeEventListener (session l) SaveForm (popstate w)\<rparr>;
               w2 = w1\<lparr>beforeunload :=
                         removeEventListener (session l) SaveFormBeforeUnload (beforeunload w1)\<rparr>;
               w3 = w2\<lparr>unload := removeEventListener (session l) SaveForm (unload w2)\<rparr>
           in case clearStorage (config l) w3 of Inl e \<Rightarrow> (w3, Some e) | Inr w' \<Rightarrow> (w', None)))"

text \<open>
  A signal calls the listeners attached for it, in order; an error raised by one is
  reported and the next is called. No closure of this program detaches a listener of the
  signal it is called for, so the listeners called are those attached when the signal
  fires.
\<close>

datatype signal = Popstate | BeforeUnload | Unload | Submit

definition listeners :: "signal \<Rightarrow> world \<Rightarrow> listener list" where
  "listeners sig w =
     (case sig of Popstate \<Rightarrow> popstate w | BeforeUnload \<Rightarrow> beforeunload w
                | Unload \<Rightarrow> unload w | Submit \<Rightarrow> submit w)"

definition dispatch :: "platform \<Rightarrow> signal \<Rightarrow> world \<Rightarrow> world" where
  "dispatch P sig w = foldl (\<lambda>w' l. fst (call P l w')) w (listeners sig w)"

text \<open>
  \<^verbatim>\<open>persist\<close> returns its disposer; here it returns the number of the call, and
  \<open>disposer\<close> is the function returned, for that number and the options of the call.
\<close>

definition persist :: "platform \<Rightarrow> FormPersistenceOptions \<Rightarrow> world \<Rightarrow> error + (nat \<times> world)" where
  "persist P opts w =
     (case load P opts w of
        Inl e \<Rightarrow> Inl e
      | Inr w1 \<Rightarrow>
          (let s = nextSession w1;
               saveForm = \<lparr>session = s, closure = SaveForm, config = opts\<rparr>;
               saveFormBeforeUnload = \<lparr>session = s, closure = SaveFormBeforeUnload, config = opts\<rparr>;
               w2 = w1\<lparr>nextSession := Suc s\<rparr>;
               w3 = w2\<lparr>popstate := addEventListener saveForm (popstate w2)\<rparr>;
               w4 = w3\<lparr>beforeunload := addEventListener saveFormBeforeUnload (beforeunload w3)\<rparr>;
               w5 = w4\<lparr>unload := addEventListener saveForm (unload w4)\<rparr>;
               w6 = (if \<not> saveOnSubmit opts then
                       w5\<lparr>submit := addEventListener
                                      \<lparr>session = s, closure = SubmitHandler, config = opts\<rparr> (submit w5)\<rparr>
                     else w5)
           in Inr (s, w6)))"

definition disposer :: "platform \<Rightarrow> FormPersistenceOptions \<Rightarrow> nat \<Rightarrow> world \<Rightarrow> error + world" where
  "disposer P opts s w =
     (case save P opts w of
        Inl e \<Rightarrow> Inl e
      | Inr w1 \<Rightarrow>
          (let w2 = w1\<lparr>popstate := removeEventListener s SaveForm (popstate w1)\<rparr>;
               w3 = w2\<lparr>beforeunload := removeEventListener s SaveFormBeforeUnload (beforeunload w2)\<rparr>
           in Inr (w3\<lparr>unload := removeEventListener s SaveForm (unload w3)\<rparr>)))"

text \<open>
  What happens to the page after \<^verbatim>\<open>persist\<close>: a signal fires, or the user changes the
  state of the form's elements.
\<close>

datatype event = Fire signal | Input "element list"

definition step :: "platform \<Rightarrow> world \<Rightarrow> event \<Rightarrow> world" where
  "step P w ev =
     (case ev of
        Fire sig \<Rightarrow> dispatch P sig w
      | Input els \<Rightarrow> w\<lparr>theForm := (theForm w)\<lparr>elements := els\<rparr>\<rparr>)"

definition run :: "platform \<Rightarrow> event list \<Rightarrow> world \<Rightarrow> world" where
  "run P evs w = foldl (step P) w evs"

section \<open>Predicates and concrete inputs of the statements\<close>

text \<open>The options of a call that passes none, and a text input with a name and a value.\<close>

definition defaults :: FormPersistenceOptions where
  "defaults =
     \<lparr> uuid = None, useSessionStorage = False, saveOnSubmit = False, valueFunctions = None,
       include = [], exclude = [], includeFilter = None, excludeFilter = None \<rparr>"

definition textInput :: "string \<Rightarrow> string \<Rightarrow> element" where
  "textInput n v =
     \<lparr> tagName = ''INPUT'', type = ''text'', name = n, value = v, checked = False,
       multiple = False, options = [] \<rparr>"

subsection \<open>Kinds of elements\<close>

text \<open>
  The elements the serializer skips before any filter is asked (\<open>secret\<close>), those it
  serializes by pushing their \<^verbatim>\<open>value\<close> (\<open>textLike\<close>), and those that pass both filters of a
  configuration (\<open>participates\<close>).
\<close>

definition secret :: "element \<Rightarrow> bool" where
  "secret el = (tagName el = ''INPUT'' \<and> (type el = ''password'' \<or> type el = ''file''))"

definition textLike :: "element \<Rightarrow> bool" where
  "textLike el =
     ((tagName el = ''INPUT'' \<and> type el \<noteq> ''radio'' \<and> type el \<noteq> ''checkbox'')
      \<or> tagName el = ''TEXTAREA''
      \<or> (tagName el = ''SELECT'' \<and> \<not> multiple el))"

definition participates :: "FormPersistenceOptions \<Rightarrow> element \<Rightarrow> bool" where
  "participates opts el =
     (\<not> isNameFiltered (name el) (include opts) (exclude opts)
      \<and> \<not> isElementFiltered el (includeFilter opts) (excludeFilter opts))"

text \<open>
  \<^verbatim>\<open>dict[key]\<close>, with the empty sequence for a missing key; and the records in which no
  sequence is empty or holds the empty string.
\<close>

definition valuesOf :: "FormData \<Rightarrow> string \<Rightarrow> jsval list" where
  "valuesOf d k = (case map_of d k of None \<Rightarrow> [] | Some vs \<Rightarrow> vs)"

definition stored :: "FormData \<Rightarrow> bool" where
  "stored d = list_all (\<lambda>(k, vs). vs \<noteq> [] \<and> JStr [] \<notin> set vs) d"

definition checkbox :: "string \<Rightarrow> bool \<Rightarrow> element" where
  "checkbox n b =
     \<lparr> tagName = ''INPUT'', type = ''checkbox'', name = n, value = ''on'', checked = b,
       multiple = False, options = [] \<rparr>"

definition passwordInput :: "string \<Rightarrow> string \<Rightarrow> element" where
  "passwordInput n v =
     \<lparr> tagName = ''INPUT'', type = ''password'', name = n, value = v, checked = False,
       multiple = False, options = [] \<rparr>"

text \<open>
  What no write of the deserializer changes in an element: its tag, its type, its name
  and, for a radio, its value. And the fields for which the generic path checks a radio:
  a radio of the name \<open>n\<close> passes the element filter and holds the first of the values.
\<close>

definition fixedPart :: "element \<Rightarrow> string \<times> string \<times> string \<times> string" where
  "fixedPart el = (tagName el, type el, name el, if radio el then value el else [])"






text \<open>
  A multiple select (its \<^verbatim>\<open>value\<close> is that of its first selected option), and the form of
  the round trip: a text input \<open>name\<close>, a checkbox \<open>agree\<close>, a multiple select \<open>color\<close>
  with the options \<open>red\<close> and \<open>blue\<close>.
\<close>

definition multiSelect :: "string \<Rightarrow> html_option list \<Rightarrow> element" where
  "multiSelect n os =
     \<lparr> tagName = ''SELECT'', type = ''select-multiple'', name = n, value = selectedValue os,
       checked = False, multiple = True, options = os \<rparr>"

definition roundTripForm :: "string \<Rightarrow> bool \<Rightarrow> bool \<Rightarrow> bool \<Rightarrow> form" where
  "roundTripForm v b red blue =
     \<lparr> form_id = ''myForm'',
       elements = [textInput ''name'' v, checkbox ''agree'' b,
                   multiSelect ''color'' [\<lparr>optionValue = ''red'', selected = red\<rparr>,
                                          \<lparr>optionValue = ''blue'', selected = blue\<rparr>]] \<rparr>"

subsection \<open>Pages\<close>

text \<open>
  A page on which nothing is attached. A page on which the call \<open>s\<close> of \<^verbatim>\<open>persist\<close> is the
  only one and its save triggers are attached (the \<^verbatim>\<open>unload\<close> one possibly detached by the
  \<^verbatim>\<open>beforeunload\<close> listener), the key of the form being \<open>k\<close>. A page on which they are
  detached, the submit listener is left, and nothing is stored under \<open>k\<close>.
\<close>

definition noListeners :: "world \<Rightarrow> bool" where
  "noListeners w = (popstate w = [] \<and> beforeunload w = [] \<and> unload w = [] \<and> submit w = [])"

definition armed :: "nat \<Rightarrow> FormPersistenceOptions \<Rightarrow> string \<Rightarrow> world \<Rightarrow> bool" where
  "armed s opts k w =
     (popstate w = [\<lparr>session = s, closure = SaveForm, config = opts\<rparr>]
      \<and> beforeunload w = [\<lparr>session = s, closure = SaveFormBeforeUnload, config = opts\<rparr>]
      \<and> (unload w = [\<lparr>session = s, closure = SaveForm, config = opts\<rparr>] \<or> unload w = [])
      \<and> submit w = (if saveOnSubmit opts then []
                     else [\<lparr>session = s, closure = SubmitHandler, config = opts\<rparr>])
      \<and> getStorageKey (theForm w) (uuid opts) = Inr k)"

definition disarmed :: "nat \<Rightarrow> FormPersistenceOptions \<Rightarrow> string \<Rightarrow> world \<Rightarrow> bool" where
  "disarmed s opts k w =
     (popstate w = [] \<and> beforeunload w = [] \<and> unload w = []
      \<and> submit w = [\<lparr>session = s, closure = SubmitHandler, config = opts\<rparr>]
      \<and> getStorageKey (theForm w) (uuid opts) = Inr k
      \<and> getItem (useSessionStorage opts) k w = None)"

text \<open>
  A platform for the concrete inputs. It renders a record without escaping, which is
  what \<^verbatim>\<open>JSON.stringify\<close> gives for names and values free of quotes, backslashes and
  control characters, and it decodes the text of the empty record only.
\<close>

definition quoted :: "string \<Rightarrow> string" where
  "quoted s = CHR 0x22 # s @ [CHR 0x22]"

fun showValue :: "jsval \<Rightarrow> string" where
  "showValue (JStr s) = quoted s"
| "showValue (JBool b) = (if b then ''true'' else ''false'')"
| "showValue JUndefined = ''null''"

fun joinWith :: "string \<Rightarrow> string list \<Rightarrow> string" where
  "joinWith sep [] = []"
| "joinWith sep [x] = x"
| "joinWith sep (x # y # ys) = x @ sep @ joinWith sep (y # ys)"

definition stringifyPlain :: "FormData \<Rightarrow> string" where
  "stringifyPlain d =
     ''{'' @ joinWith '',''
              (map (\<lambda>k. quoted k @ '':['' @ joinWith '','' (map showValue (valuesOf d k)) @ '']'')
                 (ownKeys d))
     @ ''}''"

definition plainPlatform :: platform where
  "plainPlatform =
     \<lparr> JSON_stringify = stringifyPlain,
       JSON_parse = (\<lambda>s. if s = ''{}'' then Inr [] else Inl SyntaxError) \<rparr>"

text \<open>
  A page just loaded, holding a form; the form of the readme; and the page after
  \<^verbatim>\<open>persist(form, opts)\<close>, the first call on a page just loaded with nothing stored.
\<close>

definition emptyPage :: "form \<Rightarrow> world" where
  "emptyPage f =
     \<lparr> theForm = f, localStorage = Map.empty, sessionStorage = Map.empty, popstate = [],
       beforeunload = [], unload = [], submit = [], nextSession = 0 \<rparr>"

definition myForm :: form where
  "myForm = \<lparr> form_id = ''myForm'', elements = [textInput ''username'' ''alice''] \<rparr>"

definition persisted :: "FormPersistenceOptions \<Rightarrow> form \<Rightarrow> world" where
  "persisted opts f =
     (emptyPage f)
       \<lparr> popstate := [\<lparr>session = 0, closure = SaveForm, config = opts\<rparr>],
         beforeunload := [\<lparr>session = 0, closure = SaveFormBeforeUnload, config = opts\<rparr>],
         unload := [\<lparr>session = 0, closure = SaveForm, config = opts\<rparr>],
         submit := [\<lparr>session = 0, closure = SubmitHandler, config = opts\<rparr>],
         nextSession := 1 \<rparr>"

section \<open>Properties\<close>

subsection \<open>Field filter\<close>

text \<open>
  C7, filter precedence. \<open>isNameFiltered\<close> is true for the empty name, true whenever
  \<open>exclude\<close> contains the name whatever \<open>include\<close> holds, and true when \<open>include\<close> is not
  empty and lacks the name; it is true in no other case. With \<open>include = [a, b]\<close> and
  \<open>exclude = [b]\<close> the only name that participates is \<open>a\<close>. \<open>isElementFiltered\<close> is true
  whenever \<open>excludeFilter\<close> matches, whatever \<open>includeFilter\<close> says.
\<close>

theorem filter_precedence:
  "isNameFiltered [] inc exc
   \<and> (n \<in> set exc \<longrightarrow> isNameFiltered n inc exc)
   \<and> (inc \<noteq> [] \<and> n \<notin> set inc \<longrightarrow> isNameFiltered n inc exc)
   \<and> (isNameFiltered n inc exc \<longleftrightarrow> n = [] \<or> n \<in> set exc \<or> (inc \<noteq> [] \<and> n \<notin> set inc))
   \<and> (\<not> isNameFiltered m [''a'', ''b''] [''b''] \<longleftrightarrow> m = ''a'')
   \<and> (excF el \<longrightarrow> isElementFiltered el incF (Some excF))
   \<and> (isElementFiltered el incF' excF' \<longleftrightarrow>
        (case excF' of None \<Rightarrow> False | Some p \<Rightarrow> p el)
        \<or> (case incF' of None \<Rightarrow> False | Some p \<Rightarrow> \<not> p el))"
  by (auto simp: isNameFiltered_def isElementFiltered_def)

theorem filter_precedence_witness:
  "''b'' \<in> set [''b''] \<and> isNameFiltered ''b'' [''a'', ''b''] [''b'']
   \<and> [''a''] \<noteq> [] \<and> ''c'' \<notin> set [''a''] \<and> isNameFiltered ''c'' [''a''] []
   \<and> (\<lambda>e. name e = ''x'') (textInput ''x'' ''1'')
   \<and> isElementFiltered (textInput ''x'' ''1'') (Some (\<lambda>e. name e = ''x'')) (Some (\<lambda>e. name e = ''x''))"
  using filter_precedence [of "[''a'', ''b'']" "[''b'']" "''b''" _ "\<lambda>e. name e = ''x''"
                              "textInput ''x'' ''1''" "Some (\<lambda>e. name e = ''x'')"]
        filter_precedence [of "[''a'']" "[]" "''c''"]
  by (simp add: textInput_def)

subsection \<open>Storage key\<close>

text \<open>
  C4, form identity, in the form that holds. Computing the key raises the
  configuration error exactly when the uuid and the form's identifier are both empty;
  when at least one of them is not empty a key is returned: \<open>form#\<close> followed by the
  uuid when the uuid is not empty, and \<open>form#\<close> followed by the form's identifier when the
  uuid is missing or empty and the identifier is not.
\<close>

theorem getStorageKey_fails_iff:
  "(getStorageKey f u = Inl (Error ''form persistence requires a form id or uuid'')
      \<longleftrightarrow> \<not> truthy u \<and> form_id f = [])
   \<and> (truthy u \<or> form_id f \<noteq> [] \<longrightarrow> (\<exists>k. getStorageKey f u = Inr k))
   \<and> (s \<noteq> [] \<longrightarrow> getStorageKey f (Some s) = Inr (''form#'' @ s))
   \<and> (\<not> truthy u \<and> form_id f \<noteq> [] \<longrightarrow> getStorageKey f u = Inr (''form#'' @ form_id f))"
  by (cases u) (auto simp: getStorageKey_def truthy_def)

theorem getStorageKey_fails_iff_witness:
  "(truthy (Some ''custom'') \<or> form_id \<lparr>form_id = [], elements = []\<rparr> \<noteq> [])
   \<and> (\<exists>k. getStorageKey \<lparr>form_id = [], elements = []\<rparr> (Some ''custom'') = Inr k)
   \<and> \<not> truthy None
   \<and> getStorageKey \<lparr>form_id = [], elements = []\<rparr> None
       = Inl (Error ''form persistence requires a form id or uuid'')
   \<and> ''custom'' \<noteq> []
   \<and> getStorageKey \<lparr>form_id = ''myForm'', elements = []\<rparr> (Some ''custom'') = Inr ''form#custom''
   \<and> \<not> truthy (Some []) \<and> form_id \<lparr>form_id = ''myForm'', elements = []\<rparr> \<noteq> []
   \<and> getStorageKey \<lparr>form_id = ''myForm'', elements = []\<rparr> (Some []) = Inr ''form#myForm''
   \<and> getStorageKey \<lparr>form_id = ''myForm'', elements = []\<rparr> None = Inr ''form#myForm''"
  using getStorageKey_fails_iff [of "\<lparr>form_id = [], elements = []\<rparr>" "Some ''custom''"]
        getStorageKey_fails_iff [of "\<lparr>form_id = [], elements = []\<rparr>" None]
        getStorageKey_fails_iff [of "\<lparr>form_id = ''myForm'', elements = []\<rparr>" "Some []" "''custom''"]
        getStorageKey_fails_iff [of "\<lparr>form_id = ''myForm'', elements = []\<rparr>" None]
  by (simp add: truthy_def)

text \<open>
  C4 with \<open>exactly one\<close> fails: the uuid \<open>custom\<close> and the identifier \<open>myForm\<close> are both
  non-empty, and the key is computed, from the uuid.
\<close>

theorem getStorageKey_both_counterexample:
  "truthy (Some ''custom'') \<and> form_id \<lparr>form_id = ''myForm'', elements = []\<rparr> \<noteq> []
   \<and> getStorageKey \<lparr>form_id = ''myForm'', elements = []\<rparr> (Some ''custom'') = Inr ''form#custom''"
  by (simp add: truthy_def getStorageKey_def)

subsection \<open>Loops that stop at the first error\<close>

lemma foldE_append:
  "foldE g s (xs @ ys) = (case foldE g s xs of Inl e \<Rightarrow> Inl e | Inr s' \<Rightarrow> foldE g s' ys)"
  by (induction xs arbitrary: s) (auto split: sum.splits)

lemma foldE_invariant:
  assumes "foldE g s xs = Inr t" and "I s"
    and "\<And>s x s'. x \<in> set xs \<Longrightarrow> I s \<Longrightarrow> g s x = Inr s' \<Longrightarrow> I s'"
  shows "I t"
  using assms
proof (induction xs arbitrary: s)
  case Nil
  then show ?case by simp
next
  case (Cons x xs)
  from Cons.prems(1) obtain s' where s': "g s x = Inr s'" and r: "foldE g s' xs = Inr t"
    by (auto split: sum.splits)
  have "I s'" using Cons.prems(2) s' by (intro Cons.prems(3) [of x s s']) simp_all
  with r show ?case by (intro Cons.IH [of s']) (auto intro: Cons.prems(3))
qed

lemma foldE_total:
  assumes "\<And>s x. x \<in> set xs \<Longrightarrow> \<exists>s'. g s x = Inr s'"
  shows "\<exists>t. foldE g s xs = Inr t"
  using assms
proof (induction xs arbitrary: s)
  case Nil
  then show ?case by simp
next
  case (Cons x xs)
  from Cons.prems [of x s] obtain s' where "g s x = Inr s'" by auto
  moreover have "\<exists>t. foldE g s' xs = Inr t" by (rule Cons.IH) (simp add: Cons.prems)
  ultimately show ?case by simp
qed

lemma foldE_filter_skip:
  "(\<And>x d. \<not> P x \<Longrightarrow> g d x = Inr d) \<Longrightarrow> foldE g d (filter P xs) = foldE g d xs"
  by (induction xs arbitrary: d) (simp_all split: sum.splits)

subsection \<open>Serializer\<close>

lemma pushToArray_empty [simp]: "pushToArray d k (JStr []) = Inr d"
  by (simp add: pushToArray_def)

lemma pushToArray_Inr:
  assumes "pushToArray d k v = Inr d'" "v \<noteq> JStr []"
  shows "d' = map (\<lambda>(k', vs). (k', if k' = k then vs @ [v] else vs))
                (if k \<notin> fst ` set d then d @ [(k, [])] else d)"
proof -
  have e: "(\<lambda>(k', vs). if k' = k then (k', vs @ [v]) else (k', vs))
           = (\<lambda>(k', vs). (k', if k' = k then vs @ [v] else vs))"
    by (auto simp: fun_eq_iff)
  from assms show ?thesis
    unfolding pushToArray_def Let_def hasProperty_def e
    by (auto split: if_splits)
qed

lemma pushToArray_total: "k \<notin> set inheritedKeys \<Longrightarrow> \<exists>d'. pushToArray d k v = Inr d'"
  by (auto simp: pushToArray_def Let_def hasProperty_def)

lemma stored_pushToArray:
  assumes "stored d" "pushToArray d k v = Inr d'"
  shows "stored d'"
proof (cases "v = JStr []")
  case True
  with assms show ?thesis by simp
next
  case False
  have "stored xs \<Longrightarrow> stored (map (\<lambda>(k', vs). (k', if k' = k then vs @ [v] else vs)) xs)" for xs
    using False by (induction xs) (auto simp: stored_def split: if_splits)
  moreover have "stored (d @ [(k, [v])])"
    using assms(1) False by (simp add: stored_def)
  ultimately show ?thesis
    using assms(1) unfolding pushToArray_Inr [OF assms(2) False]
    by (cases "k \<in> fst ` set d") (simp_all add: stored_def)
qed

lemma keys_map_keyed: "map fst (map (\<lambda>(k, v). (k, h k v)) xs) = map fst xs"
  by (induction xs) auto

lemma keys_pushToArray:
  assumes "pushToArray d k v = Inr d'"
  shows "fst ` set d' \<subseteq> insert k (fst ` set d)"
proof (cases "v = JStr []")
  case True
  with assms show ?thesis by auto
next
  case False
  have "set (map fst d') \<subseteq> insert k (set (map fst d))"
    unfolding pushToArray_Inr [OF assms False] keys_map_keyed by auto
  then show ?thesis by simp
qed

lemma map_of_map_keyed:
  "map_of (map (\<lambda>(k, v). (k, h k v)) xs) k = map_option (h k) (map_of xs k)"
  by (induction xs) auto

lemma map_of_None_iff: "map_of d k = None \<longleftrightarrow> k \<notin> fst ` set d"
  by (simp add: map_of_eq_None_iff)

lemma valuesOf_pushToArray:
  assumes "pushToArray d k v = Inr d'" "v \<noteq> JStr []"
  shows "valuesOf d' k' = (if k' = k then valuesOf d k @ [v] else valuesOf d k')"
  unfolding pushToArray_Inr [OF assms]
  by (auto simp: valuesOf_def map_of_map_keyed map_of_None_iff [symmetric] map_add_def
           split: option.splits)

lemma map_of_pushToArray_same:
  assumes "pushToArray d k v = Inr d'" "v \<noteq> JStr []"
  shows "map_of d' k = Some (valuesOf d k @ [v])"
  unfolding pushToArray_Inr [OF assms]
  by (auto simp: valuesOf_def map_of_map_keyed map_of_None_iff [symmetric] map_add_def
           split: option.splits)

lemma grows_pushToArray:
  "pushToArray d k v = Inr d' \<Longrightarrow> set (valuesOf d k') \<subseteq> set (valuesOf d' k')"
  by (cases "v = JStr []") (auto simp: valuesOf_pushToArray)

text \<open>
  What one element may do to the record being built: each of its steps leaves the
  record as it is or pushes a value under the element's name.
\<close>

lemma serializeElement_invariant:
  assumes "serializeElement opts d el = Inr d'" and "I d"
    and "\<And>d v d'. I d \<Longrightarrow> pushToArray d (name el) v = Inr d' \<Longrightarrow> I d'"
  shows "I d'"
proof -
  let ?g = "\<lambda>d opt. if selected opt then pushToArray d (name el) (JStr (optionValue opt)) else Inr d"
  have loop: "I t" if "foldE ?g d (options el) = Inr t" for t
    using that assms(2)
    by (rule foldE_invariant) (auto split: if_splits intro: assms(3))
  from assms(1,2) show ?thesis
    by (auto simp: serializeElement_def Let_def split: if_splits intro: assms(3) loop)
qed

lemma stored_serialize: "serialize f opts = Inr data \<Longrightarrow> stored data"
  unfolding serialize_def
proof (erule foldE_invariant)
  show "stored []" by (simp add: stored_def)
next
  fix s x s' assume "stored s" "serializeElement opts s x = Inr s'"
  then show "stored s'"
    by (auto elim!: serializeElement_invariant [where I = stored] intro: stored_pushToArray)
qed

lemma keys_serialize:
  assumes "serialize f opts = Inr data"
  shows "fst ` set data \<subseteq> name ` set (elements f)"
  using assms unfolding serialize_def
proof (rule foldE_invariant [where I = "\<lambda>d. fst ` set d \<subseteq> name ` set (elements f)"])
  show "fst ` set [] \<subseteq> name ` set (elements f)" by simp
next
  fix s x s'
  assume x: "x \<in> set (elements f)" and s: "fst ` set s \<subseteq> name ` set (elements f)"
    and r: "serializeElement opts s x = Inr s'"
  show "fst ` set s' \<subseteq> name ` set (elements f)"
    using r s
  proof (rule serializeElement_invariant [where I = "\<lambda>d. fst ` set d \<subseteq> name ` set (elements f)"])
    fix d v d'
    assume d: "fst ` set d \<subseteq> name ` set (elements f)" and "pushToArray d (name x) v = Inr d'"
    then have "fst ` set d' \<subseteq> insert (name x) (fst ` set d)" by (intro keys_pushToArray)
    with d x show "fst ` set d' \<subseteq> name ` set (elements f)" by blast
  qed
qed

lemma textLike_empty: "textLike el \<Longrightarrow> value el = [] \<Longrightarrow> serializeElement opts d el = Inr d"
  by (auto simp: textLike_def serializeElement_def Let_def)

lemma secret_skipped: "secret el \<Longrightarrow> serializeElement opts d el = Inr d"
  by (auto simp: secret_def serializeElement_def Let_def)

lemma grows_serializeElement:
  assumes "serializeElement opts d el = Inr d'"
  shows "set (valuesOf d k) \<subseteq> set (valuesOf d' k)"
  using assms
proof (rule serializeElement_invariant [where I = "\<lambda>d'. set (valuesOf d k) \<subseteq> set (valuesOf d' k)"])
  show "set (valuesOf d k) \<subseteq> set (valuesOf d k)" by simp
next
  fix d1 v d2
  assume "set (valuesOf d k) \<subseteq> set (valuesOf d1 k)" "pushToArray d1 (name el) v = Inr d2"
  then show "set (valuesOf d k) \<subseteq> set (valuesOf d2 k)"
    using grows_pushToArray [of d1 "name el" v d2 k] by auto
qed

lemma grows_foldE:
  assumes "foldE (serializeElement opts) d els = Inr d'"
  shows "set (valuesOf d k) \<subseteq> set (valuesOf d' k)"
  using assms
proof (rule foldE_invariant [where I = "\<lambda>d'. set (valuesOf d k) \<subseteq> set (valuesOf d' k)"])
  show "set (valuesOf d k) \<subseteq> set (valuesOf d k)" by simp
next
  fix s x s'
  assume "set (valuesOf d k) \<subseteq> set (valuesOf s k)" "serializeElement opts s x = Inr s'"
  then show "set (valuesOf d k) \<subseteq> set (valuesOf s' k)"
    using grows_serializeElement [of opts s x s' k] by auto
qed

lemma checkbox_step:
  assumes "tagName cb = ''INPUT''" "type cb = ''checkbox''" "participates opts cb"
  shows "serializeElement opts d cb = pushToArray d (name cb) (JBool (checked cb))"
  using assms by (simp add: serializeElement_def participates_def)

lemma checkbox_in_foldE:
  assumes "tagName cb = ''INPUT''" "type cb = ''checkbox''" "participates opts cb" "cb \<in> set els"
    and "foldE (serializeElement opts) d els = Inr d'"
  shows "JBool (checked cb) \<in> set (valuesOf d' (name cb))"
proof -
  from \<open>cb \<in> set els\<close> obtain xs ys where els: "els = xs @ cb # ys"
    by (auto simp: in_set_conv_decomp)
  from assms(5) obtain d1 d2 where d1: "foldE (serializeElement opts) d xs = Inr d1"
    and d2: "serializeElement opts d1 cb = Inr d2"
    and d': "foldE (serializeElement opts) d2 ys = Inr d'"
    by (auto simp: els foldE_append split: sum.splits)
  from d2 have "pushToArray d1 (name cb) (JBool (checked cb)) = Inr d2"
    by (simp add: checkbox_step [OF assms(1-3)])
  then have "JBool (checked cb) \<in> set (valuesOf d2 (name cb))"
    by (simp add: valuesOf_pushToArray)
  then show ?thesis using grows_foldE [OF d', of "name cb"] by auto
qed

lemma valuesOf_mem: "v \<in> set (valuesOf d k) \<Longrightarrow> \<exists>vs. map_of d k = Some vs \<and> v \<in> set vs"
  by (cases "map_of d k") (auto simp: valuesOf_def)

lemma serializeElement_total:
  assumes "name el \<notin> set inheritedKeys"
  shows "\<exists>d'. serializeElement opts d el = Inr d'"
proof -
  let ?g = "\<lambda>d opt. if selected opt then pushToArray d (name el) (JStr (optionValue opt)) else Inr d"
  have "\<exists>t. foldE ?g d (options el) = Inr t"
    by (rule foldE_total) (simp add: pushToArray_total [OF assms])
  then show ?thesis
    using pushToArray_total [OF assms] by (simp add: serializeElement_def Let_def)
qed

lemma serialize_total:
  assumes "\<forall>el \<in> set (elements f). name el \<notin> set inheritedKeys"
  shows "\<exists>data. serialize f opts = Inr data"
  unfolding serialize_def using assms by (intro foldE_total serializeElement_total) simp

lemma filter_secret_eq:
  "list_all2 (\<lambda>e e'. if secret e then secret e' else e' = e) els els' \<Longrightarrow>
   filter (\<lambda>e. \<not> secret e) els = filter (\<lambda>e. \<not> secret e) els'"
  by (induction rule: list_all2_induct) (auto split: if_splits)

lemma serialize_without_secrets:
  "serialize f opts = serialize (f\<lparr>elements := filter (\<lambda>e. \<not> secret e) (elements f)\<rparr>) opts"
  using foldE_filter_skip [of "\<lambda>e. \<not> secret e" "serializeElement opts" "[]" "elements f"]
  by (simp add: serialize_def secret_skipped)

lemmas serialize_defs =
  serialize_def serializeElement_def pushToArray_def hasProperty_def inheritedKeys_def
  isNameFiltered_def isElementFiltered_def defaults_def textInput_def checkbox_def
  passwordInput_def

text \<open>
  A checkbox named \<open>toString\<close>: \<^verbatim>\<open>'toString' in dict\<close> is true of the empty record, no array
  is created, and the push raises.
\<close>

lemma serialize_inherited_name:
  "serialize \<lparr>form_id = ''f'', elements = [checkbox ''toString'' False]\<rparr> defaults = Inl TypeError"
  by (simp add: serialize_defs)

lemma serialize_skip_element:
  assumes "\<And>d. serializeElement opts d el = Inr d"
  shows "serialize (f\<lparr>elements := xs @ el # ys\<rparr>) opts = serialize (f\<lparr>elements := xs @ ys\<rparr>) opts"
  by (simp add: serialize_def foldE_append assms split: sum.splits)

text \<open>
  C8, empty values are omitted, checkboxes are not. No sequence of a serialized record is
  empty or holds the empty string. A text-like element (an input that is neither radio
  nor checkbox, a textarea, a single select) whose value is the empty string leaves the
  record being built as it is, so serializing the form gives what serializing the form
  without it gives, and its name is no key of the record when no other element has that
  name. For a checkbox that passes the filters, the step of the serializer is the push
  of its checked state, true or false, which appends it to the sequence of its name, and
  that state is in the record of the form. A record is produced whenever no element is
  named like a property every object inherits.
\<close>

theorem empty_value_omission:
  "(serialize f opts = Inr data \<longrightarrow> list_all (\<lambda>(k, vs). vs \<noteq> [] \<and> JStr [] \<notin> set vs) data)
   \<and> (textLike el \<and> value el = [] \<longrightarrow>
        serializeElement opts d el = Inr d
        \<and> serialize (f\<lparr>elements := xs @ el # ys\<rparr>) opts = serialize (f\<lparr>elements := xs @ ys\<rparr>) opts
        \<and> (name el \<notin> name ` set (xs @ ys)
             \<and> serialize (f\<lparr>elements := xs @ el # ys\<rparr>) opts = Inr data'
             \<longrightarrow> map_of data' (name el) = None))
   \<and> (tagName cb = ''INPUT'' \<and> type cb = ''checkbox'' \<and> participates opts cb \<longrightarrow>
        serializeElement opts d cb = pushToArray d (name cb) (JBool (checked cb))
        \<and> (pushToArray d (name cb) (JBool (checked cb)) = Inr d'
             \<longrightarrow> map_of d' (name cb) = Some (valuesOf d (name cb) @ [JBool (checked cb)]))
        \<and> (cb \<in> set (elements f) \<and> serialize f opts = Inr data
             \<longrightarrow> (\<exists>vs. map_of data (name cb) = Some vs \<and> JBool (checked cb) \<in> set vs)))
   \<and> ((\<forall>e \<in> set (elements f). name e \<notin> set inheritedKeys) \<longrightarrow> (\<exists>r. serialize f opts = Inr r))"
proof (intro conjI impI)
  assume "serialize f opts = Inr data"
  then show "list_all (\<lambda>(k, vs). vs \<noteq> [] \<and> JStr [] \<notin> set vs) data"
    using stored_serialize [of f opts data] by (simp add: stored_def)
next
  assume "textLike el \<and> value el = []"
  then show "serializeElement opts d el = Inr d" by (simp add: textLike_empty)
next
  assume "textLike el \<and> value el = []"
  then show "serialize (f\<lparr>elements := xs @ el # ys\<rparr>) opts = serialize (f\<lparr>elements := xs @ ys\<rparr>) opts"
    by (intro serialize_skip_element) (simp add: textLike_empty)
next
  assume t: "textLike el \<and> value el = []"
    and n: "name el \<notin> name ` set (xs @ ys) \<and> serialize (f\<lparr>elements := xs @ el # ys\<rparr>) opts = Inr data'"
  have "serialize (f\<lparr>elements := xs @ el # ys\<rparr>) opts = serialize (f\<lparr>elements := xs @ ys\<rparr>) opts"
    using t by (intro serialize_skip_element) (simp add: textLike_empty)
  with n have "serialize (f\<lparr>elements := xs @ ys\<rparr>) opts = Inr data'" by simp
  then have "fst ` set data' \<subseteq> name ` set (elements (f\<lparr>elements := xs @ ys\<rparr>))"
    by (rule keys_serialize)
  with n have "name el \<notin> fst ` set data'" by auto
  then show "map_of data' (name el) = None" by (simp add: map_of_None_iff)
next
  assume c: "tagName cb = ''INPUT'' \<and> type cb = ''checkbox'' \<and> participates opts cb"
  then show "serializeElement opts d cb = pushToArray d (name cb) (JBool (checked cb))"
    by (simp add: checkbox_step)
next
  assume "pushToArray d (name cb) (JBool (checked cb)) = Inr d'"
  then show "map_of d' (name cb) = Some (valuesOf d (name cb) @ [JBool (checked cb)])"
    by (rule map_of_pushToArray_same) simp
next
  assume c: "tagName cb = ''INPUT'' \<and> type cb = ''checkbox'' \<and> participates opts cb"
    and m: "cb \<in> set (elements f) \<and> serialize f opts = Inr data"
  have "JBool (checked cb) \<in> set (valuesOf data (name cb))"
    using c m by (intro checkbox_in_foldE [of cb opts "elements f" "[]"]) (simp_all add: serialize_def)
  then show "\<exists>vs. map_of data (name cb) = Some vs \<and> JBool (checked cb) \<in> set vs"
    by (rule valuesOf_mem)
next
  assume "\<forall>e \<in> set (elements f). name e \<notin> set inheritedKeys"
  then show "\<exists>r. serialize f opts = Inr r" by (rule serialize_total)
qed

theorem empty_value_omission_witness:
  "serialize \<lparr>form_id = ''f'', elements = [textInput ''name'' [], checkbox ''agree'' False]\<rparr> defaults
     = Inr [(''agree'', [JBool False])]
   \<and> textLike (textInput ''name'' []) \<and> value (textInput ''name'' []) = []
   \<and> name (textInput ''name'' []) \<notin> name ` set ([] @ [checkbox ''agree'' False])
   \<and> map_of [(''agree'', [JBool False])] ''name'' = None
   \<and> tagName (checkbox ''agree'' False) = ''INPUT'' \<and> type (checkbox ''agree'' False) = ''checkbox''
   \<and> participates defaults (checkbox ''agree'' False)
   \<and> checkbox ''agree'' False \<in> set (elements \<lparr>form_id = ''f'', elements = [textInput ''name'' [], checkbox ''agree'' False]\<rparr>)
   \<and> (\<exists>vs. map_of [(''agree'', [JBool False])] ''agree'' = Some vs \<and> JBool False \<in> set vs)
   \<and> list_all (\<lambda>e. name e \<notin> set inheritedKeys) (elements \<lparr>form_id = ''f'', elements = [textInput ''name'' [], checkbox ''agree'' False]\<rparr>)"
  using empty_value_omission [of "\<lparr>form_id = ''f'', elements = [textInput ''name'' [], checkbox ''agree'' False]\<rparr>"
           defaults "[(''agree'', [JBool False])]" "textInput ''name'' []" _ "[]" "[checkbox ''agree'' False]"
           "[(''agree'', [JBool False])]" "checkbox ''agree'' False"]
  by (simp add: textLike_def participates_def serialize_defs)

text \<open>
  C6, hard exclusion of secrets. Whatever the configuration, serializing a form gives
  what serializing it without its password and file inputs gives; and two forms that
  differ only in their password and file inputs (in their values or in anything else
  but their being password or file inputs) serialize to the same result.
\<close>

theorem secrets_excluded:
  "serialize f opts = serialize (f\<lparr>elements := filter (\<lambda>e. \<not> secret e) (elements f)\<rparr>) opts
   \<and> (list_all2 (\<lambda>e e'. if secret e then secret e' else e' = e) (elements f) (elements f')
        \<longrightarrow> serialize f opts = serialize f' opts)"
proof (intro conjI impI)
  show "serialize f opts = serialize (f\<lparr>elements := filter (\<lambda>e. \<not> secret e) (elements f)\<rparr>) opts"
    by (rule serialize_without_secrets)
next
  assume "list_all2 (\<lambda>e e'. if secret e then secret e' else e' = e) (elements f) (elements f')"
  then have "filter (\<lambda>e. \<not> secret e) (elements f) = filter (\<lambda>e. \<not> secret e) (elements f')"
    by (rule filter_secret_eq)
  then show "serialize f opts = serialize f' opts"
    using serialize_without_secrets [of f opts] serialize_without_secrets [of f' opts]
    by (simp add: serialize_def)
qed

theorem secrets_excluded_witness:
  "list_all2 (\<lambda>e e'. if secret e then secret e' else e' = e)
     (elements \<lparr>form_id = ''f'', elements = [textInput ''user'' ''alice'', passwordInput ''pw'' ''hunter2'']\<rparr>)
     (elements \<lparr>form_id = ''f'', elements = [textInput ''user'' ''alice'', passwordInput ''pw'' ''swordfish'']\<rparr>)
   \<and> serialize \<lparr>form_id = ''f'', elements = [textInput ''user'' ''alice'', passwordInput ''pw'' ''hunter2'']\<rparr>
        (defaults\<lparr>include := [''user'', ''pw'']\<rparr>)
     = serialize \<lparr>form_id = ''f'', elements = [textInput ''user'' ''alice'', passwordInput ''pw'' ''swordfish'']\<rparr>
        (defaults\<lparr>include := [''user'', ''pw'']\<rparr>)
   \<and> serialize \<lparr>form_id = ''f'', elements = [textInput ''user'' ''alice'', passwordInput ''pw'' ''hunter2'']\<rparr>
        (defaults\<lparr>include := [''user'', ''pw'']\<rparr>)
     = Inr [(''user'', [JStr ''alice''])]"
  using secrets_excluded [of "\<lparr>form_id = ''f'', elements = [textInput ''user'' ''alice'', passwordInput ''pw'' ''hunter2'']\<rparr>"
          "defaults\<lparr>include := [''user'', ''pw'']\<rparr>"
          "\<lparr>form_id = ''f'', elements = [textInput ''user'' ''alice'', passwordInput ''pw'' ''swordfish'']\<rparr>"]
  by (simp add: secret_def serialize_defs)

subsection \<open>Deserializer\<close>



lemma fixedPart_checked [simp]: "fixedPart (e\<lparr>checked := b\<rparr>) = fixedPart e"
  by (simp add: fixedPart_def radio_def)




lemma uncheckGroup_length [simp]: "length (uncheckGroup j es) = length es"
  by (simp add: uncheckGroup_def)


lemma applyValuesAt_length [simp]: "length (applyValuesAt es j vs i) = length es"
  by (simp add: applyValuesAt_def Let_def)





text \<open>One key of the record.\<close>

lemma restoreField_form_id: "form_id (restoreField opts n vals f) = form_id f"
  by (simp add: restoreField_def Let_def)

lemma deserializeField_form_id: "form_id (deserializeField opts data sh f n) = form_id f"
  by (simp add: deserializeField_def restoreField_form_id split: option.splits)

lemma foldl_deserializeField_form_id:
  "form_id (foldl (deserializeField opts data sh) f ns) = form_id f"
  by (induction ns arbitrary: f) (simp_all add: deserializeField_form_id)




text \<open>All the keys of the record.\<close>




text \<open>
  \<open>deserialize\<close> hands the handler table to \<open>applySpecialHandlers\<close> as its options, so no
  handler is called and every field goes the generic way.
\<close>

lemma applySpecialHandlers_tableAsOptions:
  "applySpecialHandlers data f (tableAsOptions table) = Inr (f, [], [])"
  by (simp add: applySpecialHandlers_def tableAsOptions_def ownKeys_def split: option.splits)

lemma deserialize_generic:
  "deserialize f data opts = Inr (foldl (deserializeField opts data []) f (ownKeys data), [])"
  by (simp add: deserialize_def applySpecialHandlers_tableAsOptions split: option.splits)

lemma ownKeys_names [simp]:
  "ownKeys [(''name'', a)] = [''name'']"
  "ownKeys [(''agree'', b)] = [''agree'']"
  "ownKeys [(''name'', a), (''agree'', b)] = [''name'', ''agree'']"
  "ownKeys [(''agree'', b), (''color'', c)] = [''agree'', ''color'']"
  "ownKeys [(''name'', a), (''agree'', b), (''color'', c)] = [''name'', ''agree'', ''color'']"
  "ownKeys [(''x'', d)] = [''x'']"
  "ownKeys [(''r'', d)] = [''r'']"
  "ownKeys [(''a'', d), (''r'', e)] = [''a'', ''r'']"
  by (simp_all add: ownKeys_def isArrayIndex_def isDigit_def)

lemmas deserialize_defs =
  deserialize_generic deserializeField_def restoreField_def applyValuesAt_def applyValues_def
  uncheckGroup_def radio_def selectedValue_def at_def isNameFiltered_def isElementFiltered_def

lemma serialize_roundTripForm:
  "serialize (roundTripForm v b red blue) defaults =
     Inr ((if v = [] then [] else [(''name'', [JStr v])]) @ [(''agree'', [JBool b])]
          @ (if red \<or> blue
             then [(''color'', (if red then [JStr ''red''] else []) @ (if blue then [JStr ''blue''] else []))]
             else []))"
  by (simp add: roundTripForm_def multiSelect_def serialize_defs)

lemma applySpecialHandlers_given_options:
  "applySpecialHandlers [(''x'', [JStr ''v1'', JStr ''v2''])] f (defaults\<lparr>valueFunctions := Some [(''x'', h)]\<rparr>)
     = Inr (h (h f (JStr ''v1'')) (JStr ''v2''), [(''x'', JStr ''v1''), (''x'', JStr ''v2'')], [''x''])"
  by (simp add: applySpecialHandlers_def applyHandler_def defaults_def isNameFiltered_def
        hasProperty_def)





text \<open>
  C2, round trip. For the form with the text input \<open>name\<close> (any value), the checkbox
  \<open>agree\<close> (checked or not) and the multiple select \<open>color\<close> (any of \<open>red\<close> and \<open>blue\<close>
  selected), serializing gives a record, and deserializing that record into the blank
  copy of the form gives back the text input and the checkbox as they were and the
  options of the select with the same selection; the restored form is the form that
  was serialized.
\<close>

theorem round_trip:
  "\<exists>data restored.
      serialize (roundTripForm v b red blue) defaults = Inr data
      \<and> deserialize (roundTripForm [] False False False) data defaults = Inr (restored, [])
      \<and> length (elements restored) = 3
      \<and> elements restored ! 0 = elements (roundTripForm v b red blue) ! 0
      \<and> elements restored ! 1 = elements (roundTripForm v b red blue) ! 1
      \<and> options (elements restored ! 2) = options (elements (roundTripForm v b red blue) ! 2)
      \<and> restored = roundTripForm v b red blue"
  unfolding serialize_roundTripForm
  by (cases "v = []"; cases red; cases blue)
     (simp_all add: deserialize_defs roundTripForm_def multiSelect_def textInput_def
        checkbox_def defaults_def)

text \<open>
  C1, special handlers. A text input \<open>x\<close>, the record \<open>x: [v1, v2]\<close> and a handler \<open>h\<close>
  registered for \<open>x\<close>: \<open>deserialize\<close> makes no call of \<open>h\<close>, and the generic path writes
  \<open>v1\<close> to the input. (Handed the options themselves, as its parameter is declared,
  \<open>applySpecialHandlers\<close> calls \<open>h\<close> once per value and reports \<open>x\<close> as handled:
  \<open>applySpecialHandlers_given_options\<close>.)
\<close>

theorem special_handler_not_invoked:
  "deserialize \<lparr>form_id = ''myForm'', elements = [textInput ''x'' []]\<rparr>
     [(''x'', [JStr ''v1'', JStr ''v2''])] (defaults\<lparr>valueFunctions := Some [(''x'', h)]\<rparr>)
     = Inr (\<lparr>form_id = ''myForm'', elements = [textInput ''x'' ''v1'']\<rparr>, [])"
  by (simp add: deserialize_defs textInput_def defaults_def)

subsection \<open>Storage lifecycle\<close>

lemma deserialize_form_id: "deserialize f data opts = Inr (f', log) \<Longrightarrow> form_id f' = form_id f"
  by (auto simp: deserialize_generic foldl_deserializeField_form_id)

lemma getStorageKey_cong:
  "form_id f = form_id f' \<Longrightarrow> getStorageKey f u = getStorageKey f' u"
  by (cases u) (simp_all add: getStorageKey_def)

lemma getStorageKey_elements: "getStorageKey (f\<lparr>elements := els\<rparr>) u = getStorageKey f u"
  by (rule getStorageKey_cong) simp

lemma save_keyed:
  "serialize (theForm w) opts = Inr data \<Longrightarrow> getStorageKey (theForm w) (uuid opts) = Inr k \<Longrightarrow>
   save P opts w = Inr (setItem (useSessionStorage opts) k (JSON_stringify P data) w)"
  by (simp add: save_def)

lemma save_effect:
  assumes "getStorageKey (theForm w) (uuid opts) = Inr k"
  shows "(\<exists>e. save P opts w = Inl e) \<or> (\<exists>v. save P opts w = Inr (setItem (useSessionStorage opts) k v w))"
  using assms by (cases "serialize (theForm w) opts") (auto simp: save_def)

lemma getItem_setItem: "getItem us k (setItem us k v w) = Some v"
  by (simp add: getItem_def setItem_def)

lemma getItem_removeItem: "getItem us k (removeItem us k w) = None"
  by (simp add: getItem_def removeItem_def)

lemma load_fields:
  assumes "load P opts w = Inr w'"
  shows "popstate w' = popstate w \<and> beforeunload w' = beforeunload w \<and> unload w' = unload w
         \<and> submit w' = submit w \<and> nextSession w' = nextSession w
         \<and> localStorage w' = localStorage w \<and> sessionStorage w' = sessionStorage w
         \<and> form_id (theForm w') = form_id (theForm w)"
  using assms
  by (auto simp: load_def deserialize_form_id split: sum.splits option.splits if_splits)

lemma persist_armed:
  assumes "noListeners w0" "persist P opts w0 = Inr (s, w1)"
    "getStorageKey (theForm w1) (uuid opts) = Inr k"
  shows "armed s opts k w1"
proof -
  from assms(2) obtain wl where l: "load P opts w0 = Inr wl"
    by (auto simp: persist_def split: sum.splits)
  note lf = load_fields [OF l]
  from assms(1) lf have nl: "popstate wl = []" "beforeunload wl = []" "unload wl = []" "submit wl = []"
    by (simp_all add: noListeners_def)
  show ?thesis using assms(2,3) nl
    by (auto simp: persist_def l Let_def armed_def addEventListener_def)
qed

lemma armed_setItem: "armed s opts k w \<Longrightarrow> armed s opts k (setItem us k' v w)"
  by (auto simp: armed_def setItem_def)

lemma armed_saved:
  assumes "armed s opts k w"
  shows "armed s opts k (fst (case save P opts w of Inl e \<Rightarrow> (w, Some e) | Inr w' \<Rightarrow> (w', None)))"
proof -
  from assms have "getStorageKey (theForm w) (uuid opts) = Inr k" by (simp add: armed_def)
  from save_effect [OF this, of P] assms show ?thesis by (auto simp: armed_setItem)
qed

lemma armed_unload_off: "armed s opts k w \<Longrightarrow> armed s opts k (w\<lparr>unload := []\<rparr>)"
  by (simp add: armed_def)

lemma armed_step:
  assumes "armed s opts k w" "ev \<noteq> Fire Submit"
  shows "armed s opts k (step P w ev)"
proof (cases ev)
  case (Input els)
  with assms show ?thesis by (auto simp: step_def armed_def getStorageKey_elements)
next
  case (Fire sig)
  with assms have ns: "sig \<noteq> Submit" by simp
  note a = assms(1)
  have l: "popstate w = [\<lparr>session = s, closure = SaveForm, config = opts\<rparr>]"
    "beforeunload w = [\<lparr>session = s, closure = SaveFormBeforeUnload, config = opts\<rparr>]"
    "unload w = [\<lparr>session = s, closure = SaveForm, config = opts\<rparr>] \<or> unload w = []"
    using a by (simp_all add: armed_def)
  show ?thesis
  proof (cases sig)
    case Popstate
    then show ?thesis using armed_saved [OF a, of P]
      by (simp add: Fire step_def dispatch_def listeners_def call_def l)
  next
    case BeforeUnload
    have "removeEventListener s SaveForm (unload w) = []"
      using l(3) by (auto simp: removeEventListener_def sameFunction_def)
    then show ?thesis using armed_saved [OF armed_unload_off [OF a], of P]
      by (simp add: Fire BeforeUnload step_def dispatch_def listeners_def call_def l Let_def)
  next
    case Unload
    from l(3) show ?thesis
    proof
      assume "unload w = [\<lparr>session = s, closure = SaveForm, config = opts\<rparr>]"
      then show ?thesis using armed_saved [OF a, of P]
        by (simp add: Fire Unload step_def dispatch_def listeners_def call_def)
    next
      assume "unload w = []"
      then show ?thesis using a
        by (simp add: Fire Unload step_def dispatch_def listeners_def)
    qed
  next
    case Submit
    with ns show ?thesis by simp
  qed
qed

lemma armed_run:
  "armed s opts k w \<Longrightarrow> Fire Submit \<notin> set evs \<Longrightarrow> armed s opts k (run P evs w)"
  unfolding run_def
  by (induction evs arbitrary: w) (auto simp: armed_step)

lemma armed_popstate:
  assumes "armed s opts k w" "serialize (theForm w) opts = Inr data"
  shows "dispatch P Popstate w = setItem (useSessionStorage opts) k (JSON_stringify P data) w"
  using assms by (simp add: dispatch_def listeners_def call_def armed_def save_keyed)

lemma armed_submit:
  assumes "armed s opts k w" "\<not> saveOnSubmit opts"
  shows "dispatch P Submit w
           = removeItem (useSessionStorage opts) k (w\<lparr>popstate := [], beforeunload := [], unload := []\<rparr>)"
  using assms
  by (auto simp: dispatch_def listeners_def call_def armed_def clearStorage_def Let_def
        removeEventListener_def sameFunction_def)

lemma armed_submit_disarmed:
  assumes "armed s opts k w" "\<not> saveOnSubmit opts"
  shows "disarmed s opts k (dispatch P Submit w)"
  using assms
  by (auto simp: armed_submit [OF assms] disarmed_def armed_def removeItem_def getItem_def)

lemma disarmed_step:
  assumes "disarmed s opts k w"
  shows "disarmed s opts k (step P w ev) \<and> localStorage (step P w ev) = localStorage w
         \<and> sessionStorage (step P w ev) = sessionStorage w"
proof (cases ev)
  case (Input els)
  with assms show ?thesis by (auto simp: step_def disarmed_def getStorageKey_elements getItem_def)
next
  case (Fire sig)
  with assms show ?thesis
    by (cases sig)
       (auto simp: step_def dispatch_def listeners_def call_def disarmed_def clearStorage_def
          Let_def removeEventListener_def removeItem_def getItem_def)
qed

lemma disarmed_run:
  "disarmed s opts k w \<Longrightarrow>
   disarmed s opts k (run P evs w) \<and> localStorage (run P evs w) = localStorage w
   \<and> sessionStorage (run P evs w) = sessionStorage w"
  unfolding run_def
proof (induction evs arbitrary: w)
  case Nil
  then show ?case by simp
next
  case (Cons ev evs)
  from disarmed_step [OF Cons.prems, of P ev] Cons.IH [of "step P w ev"]
  show ?case by simp
qed

lemma persist_form_id:
  assumes "persist P opts w = Inr (s, w1)"
  shows "form_id (theForm w1) = form_id (theForm w)"
proof -
  from assms obtain wl where l: "load P opts w = Inr wl"
    by (auto simp: persist_def split: sum.splits)
  from assms have "theForm w1 = theForm wl"
    by (auto simp: persist_def l Let_def split: if_splits)
  with load_fields [OF l] show ?thesis by simp
qed

lemma persist_then_popstate:
  assumes "noListeners w" "persist P opts w = Inr (s, w1)"
    "getStorageKey (theForm w) (uuid opts) = Inr k" "serialize (theForm w1) opts = Inr data"
  shows "dispatch P Popstate w1 = setItem (useSessionStorage opts) k (JSON_stringify P data) w1"
proof -
  have "getStorageKey (theForm w1) (uuid opts) = Inr k"
    using getStorageKey_cong [OF persist_form_id [OF assms(2)], of "uuid opts"] assms(3) by simp
  with assms(1,2) have "armed s opts k w1" by (rule persist_armed)
  then show ?thesis using assms(4) by (rule armed_popstate)
qed

lemmas world_defs =
  persist_def load_def save_def clearStorage_def getStorageKey_def truthy_def getItem_def
  setItem_def removeItem_def addEventListener_def removeEventListener_def sameFunction_def
  call_def dispatch_def listeners_def step_def run_def disposer_def noListeners_def
  emptyPage_def myForm_def persisted_def plainPlatform_def Let_def

lemma persist_myForm:
  "persist plainPlatform defaults (emptyPage myForm) = Inr (0, persisted defaults myForm)"
  by (simp add: world_defs defaults_def)

lemma serialize_myForm: "serialize myForm defaults = Inr [(''username'', [JStr ''alice''])]"
  by (simp add: serialize_defs myForm_def)

lemma key_error_everywhere:
  assumes "getStorageKey (theForm w) (uuid opts) = Inl e"
  shows "load P opts w = Inl e \<and> clearStorage opts w = Inl e \<and> persist P opts w = Inl e
         \<and> (serialize (theForm w) opts = Inr data \<longrightarrow> save P opts w = Inl e)"
  using assms by (simp add: save_def load_def clearStorage_def persist_def)

text \<open>
  C3, key derivation. For a form with the identifier \<open>myForm\<close> and no uuid (missing or
  empty) the key is \<open>form#myForm\<close>: \<open>save\<close> writes the text of the record under it, and so
  does the navigation-change trigger after \<open>persist\<close> on a page with no other listener.
  With the uuid \<open>custom\<close> the same holds for \<open>form#custom\<close>, whatever the identifier. With
  neither, computing the key raises the configuration error, and so do \<open>save\<close> and
  \<open>persist\<close>, which write nothing. What is written under a key is what is read there.
  (\<open>save\<close> serializes first: the statements about it are for a form that serializes.)
\<close>

theorem key_derivation:
  "(form_id (theForm w) = ''myForm'' \<and> \<not> truthy (uuid opts) \<longrightarrow>
      getStorageKey (theForm w) (uuid opts) = Inr ''form#myForm''
      \<and> (serialize (theForm w) opts = Inr data \<longrightarrow>
           save P opts w = Inr (setItem (useSessionStorage opts) ''form#myForm'' (JSON_stringify P data) w))
      \<and> (noListeners w \<and> persist P opts w = Inr (s, w1) \<and> serialize (theForm w1) opts = Inr data1 \<longrightarrow>
           dispatch P Popstate w1
             = setItem (useSessionStorage opts) ''form#myForm'' (JSON_stringify P data1) w1))
   \<and> (uuid opts = Some ''custom'' \<longrightarrow>
      getStorageKey (theForm w) (uuid opts) = Inr ''form#custom''
      \<and> (serialize (theForm w) opts = Inr data \<longrightarrow>
           save P opts w = Inr (setItem (useSessionStorage opts) ''form#custom'' (JSON_stringify P data) w))
      \<and> (noListeners w \<and> persist P opts w = Inr (s, w1) \<and> serialize (theForm w1) opts = Inr data1 \<longrightarrow>
           dispatch P Popstate w1
             = setItem (useSessionStorage opts) ''form#custom'' (JSON_stringify P data1) w1))
   \<and> (form_id (theForm w) = [] \<and> \<not> truthy (uuid opts) \<longrightarrow>
      getStorageKey (theForm w) (uuid opts)
        = Inl (Error ''form persistence requires a form id or uuid'')
      \<and> (serialize (theForm w) opts = Inr data \<longrightarrow>
           save P opts w = Inl (Error ''form persistence requires a form id or uuid''))
      \<and> persist P opts w = Inl (Error ''form persistence requires a form id or uuid''))
   \<and> getItem us k (setItem us k v w) = Some v"
proof (intro conjI impI)
  assume h: "form_id (theForm w) = ''myForm'' \<and> \<not> truthy (uuid opts)"
  then show k: "getStorageKey (theForm w) (uuid opts) = Inr ''form#myForm''"
    by (auto simp: getStorageKey_def truthy_def split: option.splits)
  {
    assume "serialize (theForm w) opts = Inr data"
    then show "save P opts w = Inr (setItem (useSessionStorage opts) ''form#myForm'' (JSON_stringify P data) w)"
      using k by (rule save_keyed)
  }
  assume "noListeners w \<and> persist P opts w = Inr (s, w1) \<and> serialize (theForm w1) opts = Inr data1"
  then show "dispatch P Popstate w1
             = setItem (useSessionStorage opts) ''form#myForm'' (JSON_stringify P data1) w1"
    using k by (intro persist_then_popstate [of w]) simp_all
next
  assume h: "uuid opts = Some ''custom''"
  then show k: "getStorageKey (theForm w) (uuid opts) = Inr ''form#custom''"
    by (simp add: getStorageKey_def truthy_def)
  {
    assume "serialize (theForm w) opts = Inr data"
    then show "save P opts w = Inr (setItem (useSessionStorage opts) ''form#custom'' (JSON_stringify P data) w)"
      using k by (rule save_keyed)
  }
  assume "noListeners w \<and> persist P opts w = Inr (s, w1) \<and> serialize (theForm w1) opts = Inr data1"
  then show "dispatch P Popstate w1
             = setItem (useSessionStorage opts) ''form#custom'' (JSON_stringify P data1) w1"
    using k by (intro persist_then_popstate [of w]) simp_all
next
  assume h: "form_id (theForm w) = [] \<and> \<not> truthy (uuid opts)"
  then show k: "getStorageKey (theForm w) (uuid opts)
        = Inl (Error ''form persistence requires a form id or uuid'')"
    by (simp add: getStorageKey_def)
  show "persist P opts w = Inl (Error ''form persistence requires a form id or uuid'')"
    using key_error_everywhere [OF k] by simp
  assume "serialize (theForm w) opts = Inr data"
  then show "save P opts w = Inl (Error ''form persistence requires a form id or uuid'')"
    using key_error_everywhere [OF k, of P data] by simp
next
  show "getItem us k (setItem us k v w) = Some v" by (rule getItem_setItem)
qed

theorem key_derivation_witness:
  "form_id (theForm (emptyPage myForm)) = ''myForm'' \<and> \<not> truthy (uuid defaults)
   \<and> serialize myForm defaults = Inr [(''username'', [JStr ''alice''])]
   \<and> save plainPlatform defaults (emptyPage myForm)
       = Inr (setItem False ''form#myForm''
                (stringifyPlain [(''username'', [JStr ''alice''])]) (emptyPage myForm))
   \<and> noListeners (emptyPage myForm)
   \<and> persist plainPlatform defaults (emptyPage myForm) = Inr (0, persisted defaults myForm)
   \<and> dispatch plainPlatform Popstate (persisted defaults myForm)
       = setItem False ''form#myForm''
           (stringifyPlain [(''username'', [JStr ''alice''])]) (persisted defaults myForm)
   \<and> uuid (defaults\<lparr>uuid := Some ''custom''\<rparr>) = Some ''custom''
   \<and> save plainPlatform (defaults\<lparr>uuid := Some ''custom''\<rparr>) (emptyPage myForm)
       = Inr (setItem False ''form#custom''
                (stringifyPlain [(''username'', [JStr ''alice''])]) (emptyPage myForm))
   \<and> form_id (theForm (emptyPage \<lparr>form_id = [], elements = []\<rparr>)) = []
   \<and> persist plainPlatform defaults (emptyPage \<lparr>form_id = [], elements = []\<rparr>)
       = Inl (Error ''form persistence requires a form id or uuid'')"
proof -
  have h1: "form_id (theForm (emptyPage myForm)) = ''myForm'' \<and> \<not> truthy (uuid defaults)"
    by (simp add: emptyPage_def myForm_def defaults_def truthy_def)
  have h2: "noListeners (emptyPage myForm)" by (simp add: noListeners_def emptyPage_def)
  have h3: "uuid (defaults\<lparr>uuid := Some ''custom''\<rparr>) = Some ''custom''" by simp
  have h4: "form_id (theForm (emptyPage \<lparr>form_id = [], elements = []\<rparr>)) = []
            \<and> \<not> truthy (uuid defaults)"
    by (simp add: emptyPage_def defaults_def truthy_def)
  have s: "serialize myForm (defaults\<lparr>uuid := Some ''custom''\<rparr>) = Inr [(''username'', [JStr ''alice''])]"
    by (simp add: serialize_defs myForm_def)
  have t: "theForm (emptyPage myForm) = myForm" "theForm (persisted defaults myForm) = myForm"
    "useSessionStorage defaults = False" "JSON_stringify plainPlatform = stringifyPlain"
    by (simp_all add: emptyPage_def persisted_def defaults_def plainPlatform_def)
  note a = key_derivation [of "emptyPage myForm" defaults "[(''username'', [JStr ''alice''])]"
             plainPlatform 0 "persisted defaults myForm" "[(''username'', [JStr ''alice''])]"]
  note b = key_derivation [of "emptyPage myForm" "defaults\<lparr>uuid := Some ''custom''\<rparr>"
             "[(''username'', [JStr ''alice''])]" plainPlatform]
  note c = key_derivation [of "emptyPage \<lparr>form_id = [], elements = []\<rparr>" defaults _ plainPlatform]
  from a h1 h2 persist_myForm serialize_myForm
  have a': "save plainPlatform defaults (emptyPage myForm)
       = Inr (setItem False ''form#myForm''
                (stringifyPlain [(''username'', [JStr ''alice''])]) (emptyPage myForm))"
    "dispatch plainPlatform Popstate (persisted defaults myForm)
       = setItem False ''form#myForm''
           (stringifyPlain [(''username'', [JStr ''alice''])]) (persisted defaults myForm)"
    by (simp_all add: t)
  from b h3 s have b': "save plainPlatform (defaults\<lparr>uuid := Some ''custom''\<rparr>) (emptyPage myForm)
       = Inr (setItem False ''form#custom''
                (stringifyPlain [(''username'', [JStr ''alice''])]) (emptyPage myForm))"
    by (simp add: t)
  from c h4 have c': "persist plainPlatform defaults (emptyPage \<lparr>form_id = [], elements = []\<rparr>)
       = Inl (Error ''form persistence requires a form id or uuid'')"
    by simp
  from h1 h2 h3 h4 a' b' c' persist_myForm serialize_myForm show ?thesis by simp
qed

text \<open>
  C5, submit discard. \<open>persist\<close> with \<open>saveOnSubmit\<close> false returned on a page with no other
  listener, and the key of the form is \<open>k\<close>. After any signals other than submit and any
  input, and a save by the navigation-change trigger (the record, if the form
  serializes, is then stored under \<open>k\<close>), the submit signal leaves no listener for
  navigation-change, impending-unload or unload, and nothing under \<open>k\<close>; whatever signals
  and input follow, the two stores stay as the submit left them.
\<close>

theorem submit_discards:
  assumes "noListeners w0" and "persist P opts w0 = Inr (s, w1)" and "\<not> saveOnSubmit opts"
    and "getStorageKey (theForm w1) (uuid opts) = Inr k" and "Fire Submit \<notin> set before"
  shows "(let w2 = dispatch P Popstate (run P before w1);
              w3 = dispatch P Submit w2;
              w4 = run P after w3
          in (\<forall>data. serialize (theForm (run P before w1)) opts = Inr data
                \<longrightarrow> getItem (useSessionStorage opts) k w2 = Some (JSON_stringify P data))
             \<and> popstate w3 = [] \<and> beforeunload w3 = [] \<and> unload w3 = []
             \<and> getItem (useSessionStorage opts) k w3 = None
             \<and> localStorage w4 = localStorage w3 \<and> sessionStorage w4 = sessionStorage w3
             \<and> getItem (useSessionStorage opts) k w4 = None)"
proof -
  let ?w = "run P before w1"
  let ?w2 = "dispatch P Popstate ?w"
  let ?w3 = "dispatch P Submit ?w2"
  have a1: "armed s opts k w1" using assms(1,2,4) by (rule persist_armed)
  then have a: "armed s opts k ?w" using assms(5) by (rule armed_run)
  have "armed s opts k (step P ?w (Fire Popstate))" using a by (rule armed_step) simp
  then have a2: "armed s opts k ?w2" by (simp add: step_def)
  have saved: "getItem (useSessionStorage opts) k ?w2 = Some (JSON_stringify P data)"
    if "serialize (theForm ?w) opts = Inr data" for data
    using armed_popstate [OF a that, of P] by (simp add: getItem_setItem)
  have d: "disarmed s opts k ?w3" using a2 assms(3) by (rule armed_submit_disarmed)
  note r = disarmed_run [OF d, of P after]
  from d r saved show ?thesis by (simp add: Let_def disarmed_def)
qed

theorem submit_discards_witness:
  "noListeners (emptyPage myForm)
   \<and> persist plainPlatform defaults (emptyPage myForm) = Inr (0, persisted defaults myForm)
   \<and> \<not> saveOnSubmit defaults
   \<and> getStorageKey (theForm (persisted defaults myForm)) (uuid defaults) = Inr ''form#myForm''
   \<and> Fire Submit \<notin> set [Input [textInput ''username'' ''bob''], Fire BeforeUnload]
   \<and> serialize (theForm (run plainPlatform [Input [textInput ''username'' ''bob''], Fire BeforeUnload]
                             (persisted defaults myForm))) defaults
       = Inr [(''username'', [JStr ''bob''])]
   \<and> (let w2 = dispatch plainPlatform Popstate
                  (run plainPlatform [Input [textInput ''username'' ''bob''], Fire BeforeUnload]
                     (persisted defaults myForm));
           w3 = dispatch plainPlatform Submit w2;
           w4 = run plainPlatform [Fire Unload, Fire Popstate] w3
       in getItem False ''form#myForm'' w2 = Some (stringifyPlain [(''username'', [JStr ''bob''])])
          \<and> popstate w3 = [] \<and> beforeunload w3 = [] \<and> unload w3 = []
          \<and> getItem False ''form#myForm'' w3 = None
          \<and> localStorage w4 = localStorage w3 \<and> sessionStorage w4 = sessionStorage w3)"
proof -
  have h1: "noListeners (emptyPage myForm)" by (simp add: noListeners_def emptyPage_def)
  have h3: "\<not> saveOnSubmit defaults" by (simp add: defaults_def)
  have h4: "getStorageKey (theForm (persisted defaults myForm)) (uuid defaults) = Inr ''form#myForm''"
    by (simp add: world_defs defaults_def)
  have h5: "Fire Submit \<notin> set [Input [textInput ''username'' ''bob''], Fire BeforeUnload]" by simp
  note c = submit_discards [OF h1 persist_myForm h3 h4 h5, of "[Fire Unload, Fire Popstate]"]
  have s: "serialize (theForm (run plainPlatform [Input [textInput ''username'' ''bob''], Fire BeforeUnload]
                     (persisted defaults myForm))) defaults = Inr [(''username'', [JStr ''bob''])]"
    by (simp add: world_defs serialize_defs)
  have u: "useSessionStorage defaults = False" "JSON_stringify plainPlatform = stringifyPlain"
    by (simp_all add: defaults_def plainPlatform_def)
  from c have "(let w2 = dispatch plainPlatform Popstate
                  (run plainPlatform [Input [textInput ''username'' ''bob''], Fire BeforeUnload]
                     (persisted defaults myForm));
           w3 = dispatch plainPlatform Submit w2;
           w4 = run plainPlatform [Fire Unload, Fire Popstate] w3
       in getItem False ''form#myForm'' w2 = Some (stringifyPlain [(''username'', [JStr ''bob''])])
          \<and> popstate w3 = [] \<and> beforeunload w3 = [] \<and> unload w3 = []
          \<and> getItem False ''form#myForm'' w3 = None
          \<and> localStorage w4 = localStorage w3 \<and> sessionStorage w4 = sessionStorage w3)"
    unfolding Let_def s u by simp
  with h1 persist_myForm h3 h4 h5 s show ?thesis by simp
qed

text \<open>
  C10, the disposer leaves the submit listener. In the same setting, and the form
  serializing, the disposer returns, after it no listener is attached for
  navigation-change, impending-unload or unload, the submit listener of \<open>persist\<close> is
  still attached, and the record it saved is stored under \<open>k\<close>; a submit signal fired
  then removes it.
\<close>

theorem disposer_leaves_submit:
  assumes "noListeners w0" and "persist P opts w0 = Inr (s, w1)" and "\<not> saveOnSubmit opts"
    and "getStorageKey (theForm w1) (uuid opts) = Inr k" and "Fire Submit \<notin> set before"
    and "serialize (theForm (run P before w1)) opts = Inr data"
  shows "\<exists>w3. disposer P opts s (run P before w1) = Inr w3
             \<and> popstate w3 = [] \<and> beforeunload w3 = [] \<and> unload w3 = []
             \<and> submit w3 = submit w1
             \<and> submit w3 = [\<lparr>session = s, closure = SubmitHandler, config = opts\<rparr>]
             \<and> getItem (useSessionStorage opts) k w3 = Some (JSON_stringify P data)
             \<and> getItem (useSessionStorage opts) k (dispatch P Submit w3) = None"
proof -
  let ?w2 = "run P before w1"
  let ?ws = "setItem (useSessionStorage opts) k (JSON_stringify P data) ?w2"
  let ?w3 = "?ws\<lparr>popstate := [], beforeunload := [], unload := []\<rparr>"
  have a1: "armed s opts k w1" using assms(1,2,4) by (rule persist_armed)
  then have a: "armed s opts k ?w2" using assms(5) by (rule armed_run)
  then have as: "armed s opts k ?ws" by (rule armed_setItem)
  have key: "getStorageKey (theForm ?w2) (uuid opts) = Inr k" using a by (simp add: armed_def)
  have disp: "disposer P opts s ?w2 = Inr ?w3"
    using as by (auto simp: disposer_def save_keyed [OF assms(6) key] Let_def armed_def
                   removeEventListener_def sameFunction_def)
  have sub: "submit ?w3 = [\<lparr>session = s, closure = SubmitHandler, config = opts\<rparr>]"
    using as assms(3) by (simp add: armed_def)
  have sub1: "submit w1 = [\<lparr>session = s, closure = SubmitHandler, config = opts\<rparr>]"
    using a1 assms(3) by (simp add: armed_def)
  have present: "getItem (useSessionStorage opts) k ?w3 = Some (JSON_stringify P data)"
    by (simp add: getItem_def setItem_def)
  have key3: "getStorageKey (theForm ?w3) (uuid opts) = Inr k"
    using key by (simp add: setItem_def)
  have gone: "getItem (useSessionStorage opts) k (dispatch P Submit ?w3) = None"
    using sub key3
    by (simp add: dispatch_def listeners_def call_def clearStorage_def Let_def
          removeEventListener_def getItem_removeItem)
  show ?thesis
    using disp sub sub1 present gone by (intro exI [of _ ?w3]) simp
qed

theorem disposer_leaves_submit_witness:
  "noListeners (emptyPage myForm)
   \<and> persist plainPlatform defaults (emptyPage myForm) = Inr (0, persisted defaults myForm)
   \<and> \<not> saveOnSubmit defaults
   \<and> getStorageKey (theForm (persisted defaults myForm)) (uuid defaults) = Inr ''form#myForm''
   \<and> Fire Submit \<notin> set [Fire Popstate]
   \<and> serialize (theForm (run plainPlatform [Fire Popstate] (persisted defaults myForm))) defaults
       = Inr [(''username'', [JStr ''alice''])]
   \<and> (\<exists>w3. disposer plainPlatform defaults 0 (run plainPlatform [Fire Popstate] (persisted defaults myForm)) = Inr w3
          \<and> popstate w3 = [] \<and> beforeunload w3 = [] \<and> unload w3 = []
          \<and> submit w3 = [\<lparr>session = 0, closure = SubmitHandler, config = defaults\<rparr>]
          \<and> getItem False ''form#myForm'' w3 = Some (stringifyPlain [(''username'', [JStr ''alice''])])
          \<and> getItem False ''form#myForm'' (dispatch plainPlatform Submit w3) = None)"
proof -
  have h1: "noListeners (emptyPage myForm)" by (simp add: noListeners_def emptyPage_def)
  have h3: "\<not> saveOnSubmit defaults" by (simp add: defaults_def)
  have h4: "getStorageKey (theForm (persisted defaults myForm)) (uuid defaults) = Inr ''form#myForm''"
    by (simp add: world_defs defaults_def)
  have h5: "Fire Submit \<notin> set [Fire Popstate]" by simp
  have s: "serialize (theForm (run plainPlatform [Fire Popstate] (persisted defaults myForm))) defaults
             = Inr [(''username'', [JStr ''alice''])]"
    by (simp add: world_defs serialize_defs)
  note c = disposer_leaves_submit [OF h1 persist_myForm h3 h4 h5 s]
  have u: "useSessionStorage defaults = False" "JSON_stringify plainPlatform = stringifyPlain"
    by (simp_all add: defaults_def plainPlatform_def)
  from c have "\<exists>w3. disposer plainPlatform defaults 0 (run plainPlatform [Fire Popstate] (persisted defaults myForm)) = Inr w3
          \<and> popstate w3 = [] \<and> beforeunload w3 = [] \<and> unload w3 = []
          \<and> submit w3 = [\<lparr>session = 0, closure = SubmitHandler, config = defaults\<rparr>]
          \<and> getItem False ''form#myForm'' w3 = Some (stringifyPlain [(''username'', [JStr ''alice''])])
          \<and> getItem False ''form#myForm'' (dispatch plainPlatform Submit w3) = None"
    unfolding u by blast
  with h1 persist_myForm h3 h4 h5 s show ?thesis by simp
qed

end
